theory Spec2Isabelle
  imports Main
begin

section \<open>Data model\<close>

text \<open>
  The relations of \<^verbatim>\<open>bookings\<close>, \<^verbatim>\<open>messages\<close>, \<^verbatim>\<open>profiles\<close> and
  \<^verbatim>\<open>rider_profiles\<close> as the SQL sources declare them and as the TypeScript interfaces
  read them. A UUID and a timestamp are natural numbers; a nullable column is an
  \<open>option\<close>. A JavaScript string is a \<open>string\<close> whose characters are the code
  units below 256.
\<close>

type_synonym uuid = nat
type_synonym timestamptz = nat

datatype booking_status = pending | accepted | on_the_way | completed | cancelled

datatype booking_type = trip | task

record booking =
  b_id :: uuid
  user_id :: uuid
  rider_id :: "uuid option"
  pickup_location :: string
  dropoff_location :: string
  scheduled_time :: "timestamptz option"
  status :: booking_status
  created_at :: timestamptz
  updated_at :: timestamptz
  notes_col :: "string option"
  price :: "int option"
  distance :: "int option"
  duration :: "int option"
  is_asap :: bool
  completed_at :: "timestamptz option"
  cancelled_at :: "timestamptz option"
  cancelled_by :: "uuid option"
  cancellation_reason :: "string option"
  booking_type :: booking_type
  name :: string

record message =
  m_id :: uuid
  m_booking_id :: uuid
  m_sender_id :: uuid
  m_content :: string
  m_created_at :: timestamptz

record profile =
  p_id :: uuid
  username :: string
  avatar_url :: "string option"

record rider_profile =
  rp_user_id :: uuid
  is_available :: bool

text \<open>
  The Persistent Store: the four relations and the clock that \<^verbatim>\<open>NOW()\<close> and
  \<^verbatim>\<open>new Date()\<close> read. A relation is the list of its rows in stored order. The store
  answers every request, except in the poll cycle of the chat screen, where the failure
  of a query is an argument.
\<close>

record store =
  bookings :: "booking list"
  messages :: "message list"
  profiles :: "profile list"
  rider_profiles :: "rider_profile list"
  now :: timestamptz

datatype error =
    User_not_authenticated
  | PGRST116
  | Row_level_security_violation
  | User_is_not_an_available_rider
  | Booking_is_not_available_for_acceptance
  | Failed_to_update_booking
  | User_is_not_a_rider
  | Foreign_key_violation

section \<open>Row-level policies of the bookings relation\<close>

text \<open>
  Each policy is the SQL expression of its \<^verbatim>\<open>USING\<close> and \<^verbatim>\<open>WITH CHECK\<close> clause, with
  \<^verbatim>\<open>auth.uid()\<close> the first argument (\<open>None\<close> without a session: a comparison with
  NULL is not true). Permissive policies of one command are joined by OR. The policy
  files of the repository declare overlapping sets; the store below carries all of them,
  which is the most permissive reading.
\<close>

definition is_owner :: "uuid option \<Rightarrow> booking \<Rightarrow> bool" where
  "is_owner uid b = (uid = Some (user_id b))"

definition is_rider_of :: "uuid option \<Rightarrow> booking \<Rightarrow> bool" where
  "is_rider_of uid b = (uid \<noteq> None \<and> uid = rider_id b)"

definition has_rider_profile :: "uuid option \<Rightarrow> store \<Rightarrow> bool" where
  "has_rider_profile uid st = (\<exists>r \<in> set (rider_profiles st). uid = Some (rp_user_id r))"

definition has_available_rider_profile :: "uuid option \<Rightarrow> store \<Rightarrow> bool" where
  "has_available_rider_profile uid st =
     (\<exists>r \<in> set (rider_profiles st). uid = Some (rp_user_id r) \<and> is_available r)"

text \<open>\<^verbatim>\<open>"Users can view their own bookings and riders can see pending bookings"\<close>\<close>

definition select_using :: "uuid option \<Rightarrow> store \<Rightarrow> booking \<Rightarrow> bool" where
  "select_using uid st b =
     (is_owner uid b \<or> is_rider_of uid b \<or>
      (status b = pending \<and> rider_id b = None \<and> has_rider_profile uid st))"

text \<open>
  \<^verbatim>\<open>"Users can update their own bookings"\<close>, \<^verbatim>\<open>"Riders can update assigned bookings"\<close>
  and \<^verbatim>\<open>"Riders can accept pending bookings"\<close>.
\<close>

definition update_using :: "uuid option \<Rightarrow> store \<Rightarrow> booking \<Rightarrow> bool" where
  "update_using uid st b =
     ((is_owner uid b \<or> is_rider_of uid b) \<or>
      is_rider_of uid b \<or>
      (status b = pending \<and> rider_id b = None \<and> has_available_rider_profile uid st))"

definition update_check :: "uuid option \<Rightarrow> store \<Rightarrow> booking \<Rightarrow> bool" where
  "update_check uid st b =
     ((is_owner uid b \<or> is_rider_of uid b) \<or>
      is_rider_of uid b \<or>
      (status b = accepted \<and> is_rider_of uid b))"

text \<open>The trigger \<^verbatim>\<open>update_bookings_updated_at\<close>, run before every update of a row.\<close>

definition update_updated_at_column :: "store \<Rightarrow> booking \<Rightarrow> booking" where
  "update_updated_at_column st b = b\<lparr>updated_at := now st\<rparr>"

text \<open>
  One \<^verbatim>\<open>UPDATE bookings SET ... WHERE ... RETURNING *\<close> issued by a client under row-level
  security. The rows it targets satisfy the \<^verbatim>\<open>WHERE\<close> clause and the \<^verbatim>\<open>USING\<close> clauses
  (of the SELECT policies too, since the statement reads the row); a new row that fails
  a \<^verbatim>\<open>WITH CHECK\<close> aborts the statement and nothing is written.
\<close>

definition update_bookings ::
  "uuid option \<Rightarrow> (booking \<Rightarrow> bool) \<Rightarrow> (booking \<Rightarrow> booking) \<Rightarrow> store \<Rightarrow>
     (error + booking list) \<times> store" where
  "update_bookings uid wher set_cols st =
     (let target = (\<lambda>b. wher b \<and> select_using uid st b \<and> update_using uid st b);
          new = (\<lambda>b. update_updated_at_column st (set_cols b));
          rows = map new (filter target (bookings st))
      in if \<exists>r \<in> set rows. \<not> (update_check uid st r \<and> select_using uid st r)
         then (Inl Row_level_security_violation, st)
         else (Inr rows, st\<lparr>bookings := map (\<lambda>b. if target b then new b else b) (bookings st)\<rparr>))"

text \<open>
  \<^verbatim>\<open>.single()\<close>: the request asks for exactly one row; with none or several the store
  answers \<^verbatim>\<open>PGRST116\<close> and the transaction is rolled back.
\<close>

definition single :: "store \<Rightarrow> (error + booking list) \<times> store \<Rightarrow> (error + booking) \<times> store" where
  "single st0 r =
     (case r of
        (Inl e, st) \<Rightarrow> (Inl e, st)
      | (Inr [row], st) \<Rightarrow> (Inr row, st)
      | (Inr _, st) \<Rightarrow> (Inl PGRST116, st0))"

section \<open>bookingService\<close>

text \<open>
  \<^verbatim>\<open>bookingService.acceptBooking(id, riderId)\<close>: one update filtered by \<^verbatim>\<open>id\<close> only.
  The first argument of each operation is the session's user.
\<close>

definition acceptBooking :: "uuid option \<Rightarrow> uuid \<Rightarrow> uuid \<Rightarrow> store \<Rightarrow> (error + booking) \<times> store" where
  "acceptBooking uid bid riderId st =
     single st (update_bookings uid (\<lambda>b. b_id b = bid)
       (\<lambda>b. b\<lparr>status := accepted, rider_id := Some riderId\<rparr>) st)"

text \<open>
  \<^verbatim>\<open>bookingService.createBooking(data)\<close>. The optional fields of
  \<^verbatim>\<open>CreateBookingData\<close> are options; a column the insert leaves out takes the
  default of the table (\<^verbatim>\<open>status\<close> is \<^verbatim>\<open>'pending'\<close>, \<^verbatim>\<open>is_asap\<close> is false, the
  timestamps are \<^verbatim>\<open>NOW()\<close>, anything else is NULL). The INSERT policy
  \<^verbatim>\<open>auth.uid() = user_id\<close> holds of every row the function writes. The constraint
  \<^verbatim>\<open>bookings_user_id_profiles_fkey\<close> refuses a row whose \<^verbatim>\<open>user_id\<close> has no row in
  \<^verbatim>\<open>profiles\<close>; the function returns the store's error then.
\<close>

record CreateBookingData =
  cb_pickup_location :: string
  cb_dropoff_location :: string
  cb_scheduled_time :: "timestamptz option"
  cb_notes :: "string option"
  cb_is_asap :: "bool option"
  cb_booking_type :: booking_type
  cb_name :: string

text \<open>The random UUID of a new row is an identifier that no row of the relation has.\<close>

definition uuid_generate_v4 :: "uuid list \<Rightarrow> uuid" where
  "uuid_generate_v4 used = Suc (fold max used 0)"

definition createBooking ::
  "uuid option \<Rightarrow> CreateBookingData \<Rightarrow> store \<Rightarrow> (error + booking) \<times> store" where
  "createBooking user data st =
     (case user of
        None \<Rightarrow> (Inl User_not_authenticated, st)
      | Some u \<Rightarrow>
          if \<not> (\<exists>p \<in> set (profiles st). p_id p = u) then (Inl Foreign_key_violation, st)
          else
          (let row = \<lparr>b_id = uuid_generate_v4 (map b_id (bookings st)),
                      user_id = u,
                      rider_id = None,
                      pickup_location = cb_pickup_location data,
                      dropoff_location = cb_dropoff_location data,
                      scheduled_time = cb_scheduled_time data,
                      status = pending,
                      created_at = now st,
                      updated_at = now st,
                      notes_col = cb_notes data,
                      price = None,
                      distance = None,
                      duration = None,
                      is_asap = (case cb_is_asap data of None \<Rightarrow> False | Some v \<Rightarrow> v),
                      completed_at = None,
                      cancelled_at = None,
                      cancelled_by = None,
                      cancellation_reason = None,
                      booking_type = cb_booking_type data,
                      name = cb_name data\<rparr>
           in (Inr row, st\<lparr>bookings := bookings st @ [row]\<rparr>)))"

text \<open>
  \<^verbatim>\<open>bookingService.cancelBooking(id, reason)\<close>: \<^verbatim>\<open>cancelled_by\<close> is
  \<^verbatim>\<open>user?.id\<close>, which without a session is \<^verbatim>\<open>undefined\<close> and leaves the column out.
\<close>

definition cancelBooking ::
  "uuid option \<Rightarrow> uuid \<Rightarrow> string \<Rightarrow> store \<Rightarrow> (error + booking) \<times> store" where
  "cancelBooking uid bid reason st =
     single st (update_bookings uid (\<lambda>b. b_id b = bid)
       (\<lambda>b. b\<lparr>status := cancelled,
              cancelled_at := Some (now st),
              cancelled_by := (case uid of None \<Rightarrow> cancelled_by b | Some u \<Rightarrow> Some u),
              cancellation_reason := Some reason\<rparr>) st)"

definition completeBooking :: "uuid option \<Rightarrow> uuid \<Rightarrow> store \<Rightarrow> (error + booking) \<times> store" where
  "completeBooking uid bid st =
     single st (update_bookings uid (\<lambda>b. b_id b = bid)
       (\<lambda>b. b\<lparr>status := completed, completed_at := Some (now st)\<rparr>) st)"

definition startTrip :: "uuid option \<Rightarrow> uuid \<Rightarrow> store \<Rightarrow> (error + booking) \<times> store" where
  "startTrip uid bid st =
     single st (update_bookings uid (\<lambda>b. b_id b = bid) (\<lambda>b. b\<lparr>status := on_the_way\<rparr>) st)"

section \<open>The stored procedure accept_booking\<close>

text \<open>
  \<^verbatim>\<open>accept_booking(booking_id)\<close> is \<^verbatim>\<open>SECURITY DEFINER\<close>: its statements run without the
  caller's row-level policies. Each \<^verbatim>\<open>RAISE EXCEPTION\<close> is an error value and leaves the
  store as it was.
\<close>

definition accept_booking :: "uuid option \<Rightarrow> uuid \<Rightarrow> store \<Rightarrow> (error + unit) \<times> store" where
  "accept_booking current_user_id booking_id st =
     (let rider_profile_exists = has_available_rider_profile current_user_id st;
          cond = (\<lambda>b. b_id b = booking_id \<and> status b = pending \<and> rider_id b = None);
          booking_exists = (\<exists>b \<in> set (bookings st). cond b)
      in if \<not> rider_profile_exists then (Inl User_is_not_an_available_rider, st)
         else if \<not> booking_exists then (Inl Booking_is_not_available_for_acceptance, st)
         else if filter cond (bookings st) = [] then (Inl Failed_to_update_booking, st)
         else (Inr (),
               st\<lparr>bookings := map (\<lambda>b. if cond b
                   then update_updated_at_column st
                          (b\<lparr>status := accepted, rider_id := current_user_id, updated_at := now st\<rparr>)
                   else b) (bookings st)\<rparr>))"

section \<open>riderService\<close>

text \<open>
  \<^verbatim>\<open>riderService.acceptBooking(bookingId)\<close>: the session check, the rider profile read
  with \<^verbatim>\<open>.single()\<close>, the call of the stored procedure, and the read that verifies the
  row (under the SELECT policy), whose error is returned although the procedure has
  committed.
\<close>

definition rider_acceptBooking :: "uuid option \<Rightarrow> uuid \<Rightarrow> store \<Rightarrow> (error + unit) \<times> store" where
  "rider_acceptBooking user bookingId st =
     (case user of
        None \<Rightarrow> (Inl User_not_authenticated, st)
      | Some u \<Rightarrow>
          (case filter (\<lambda>r. rp_user_id r = u) (rider_profiles st) of
             [riderProfile] \<Rightarrow>
               if \<not> is_available riderProfile then (Inl User_is_not_an_available_rider, st)
               else (case accept_booking user bookingId st of
                       (Inl functionError, st') \<Rightarrow> (Inl functionError, st')
                     | (Inr _, st') \<Rightarrow>
                         (case filter (\<lambda>b. b_id b = bookingId \<and> select_using user st' b) (bookings st') of
                            [updatedBooking] \<Rightarrow> (Inr (), st')
                          | _ \<Rightarrow> (Inl PGRST116, st')))
           | _ \<Rightarrow> (Inl PGRST116, st)))"

text \<open>
  \<^verbatim>\<open>riderService.getAvailableBookings()\<close>. \<^verbatim>\<open>isRider()\<close> reads the caller's rider
  profile with \<^verbatim>\<open>.single()\<close>; the bookings query filters on \<^verbatim>\<open>status = 'pending'\<close> and
  \<^verbatim>\<open>rider_id IS NULL\<close> and orders by \<^verbatim>\<open>created_at\<close> descending; each row gets the
  \<^verbatim>\<open>user\<close> object built from the booking's name and the owner's profile, where \<^verbatim>\<open>||\<close>
  skips an empty string. The store chooses the order of rows with equal \<^verbatim>\<open>created_at\<close>;
  here it is the reverse of the stored order, and the stored order in an ascending query.
\<close>

record user_summary =
  us_id :: uuid
  us_username :: string
  us_avatar_url :: "string option"

definition isRider :: "uuid option \<Rightarrow> store \<Rightarrow> bool" where
  "isRider user st =
     (case user of
        None \<Rightarrow> False
      | Some u \<Rightarrow> (case filter (\<lambda>r. rp_user_id r = u) (rider_profiles st) of [data] \<Rightarrow> True | _ \<Rightarrow> False))"

definition order_created_at_desc :: "booking list \<Rightarrow> booking list" where
  "order_created_at_desc rows = rev (sort_key created_at rows)"

definition or_else :: "string \<Rightarrow> string \<Rightarrow> string" where
  "or_else a b = (if a = [] then b else a)"

definition profileMap_get :: "profile list \<Rightarrow> uuid \<Rightarrow> profile option" where
  "profileMap_get ps = map_of (map (\<lambda>p. (p_id p, p)) (rev ps))"

definition transform_available :: "profile list \<Rightarrow> booking \<Rightarrow> booking \<times> user_summary" where
  "transform_available ps b =
     (b, \<lparr>us_id = user_id b,
          us_username = or_else (name b)
            (or_else (case profileMap_get ps (user_id b) of None \<Rightarrow> [] | Some p \<Rightarrow> username p)
               ''Unknown User''),
          us_avatar_url =
            (case profileMap_get ps (user_id b) of
               None \<Rightarrow> None
             | Some p \<Rightarrow> (case avatar_url p of None \<Rightarrow> None
                          | Some a \<Rightarrow> if a = [] then None else Some a))\<rparr>)"

definition getAvailableBookings ::
  "uuid option \<Rightarrow> store \<Rightarrow> error + (booking \<times> user_summary) list" where
  "getAvailableBookings user st =
     (if user = None then Inl User_not_authenticated
      else if \<not> isRider user st then Inl User_is_not_a_rider
      else
        (let rows = order_created_at_desc
               (filter (\<lambda>b. status b = pending \<and> rider_id b = None \<and> select_using user st b)
                  (bookings st))
         in if rows = [] then Inr []
            else
              (let userIds = map user_id rows;
                   ps = filter (\<lambda>p. p_id p \<in> set userIds) (profiles st)
               in Inr (map (transform_available ps) rows))))"

section \<open>ChatScreen: advancing the status\<close>

text \<open>
  \<^verbatim>\<open>updateBookingStatus(newStatus)\<close> of the chat screen, with the screen's
  \<^verbatim>\<open>bookingId\<close> and \<^verbatim>\<open>bookingStatus\<close> as arguments. The update matches on the
  identifier and on the screen's status; an error of the store or an empty result shows
  the failure alert and leaves the screen's status; otherwise the screen takes the new
  status.
\<close>

datatype alert = Alert_Success | Alert_Error

definition updateBookingStatus ::
  "uuid option \<Rightarrow> uuid \<Rightarrow> booking_status \<Rightarrow> booking_status \<Rightarrow> store \<Rightarrow>
     (alert \<times> booking_status) \<times> store" where
  "updateBookingStatus uid bookingId bookingStatus newStatus st =
     (case update_bookings uid (\<lambda>b. b_id b = bookingId \<and> status b = bookingStatus)
             (\<lambda>b. b\<lparr>status := newStatus, updated_at := now st\<rparr>) st of
        (Inl updateError, st') \<Rightarrow> ((Alert_Error, bookingStatus), st')
      | (Inr updateResult, st') \<Rightarrow>
          if updateResult = [] then ((Alert_Error, bookingStatus), st')
          else ((Alert_Success, newStatus), st'))"

text \<open>
  \<^verbatim>\<open>StatusButton.handlePress\<close>: nothing while an update is running; from
  \<^verbatim>\<open>'accepted'\<close> it asks for \<^verbatim>\<open>'on_the_way'\<close>, from \<^verbatim>\<open>'on_the_way'\<close> for
  \<^verbatim>\<open>'completed'\<close>, and for nothing from any other status.
\<close>

definition handlePress :: "bool \<Rightarrow> booking_status \<Rightarrow> (booking_status \<Rightarrow> 'r) \<Rightarrow> 'r option" where
  "handlePress isUpdating bookingStatus onStatusUpdate =
     (if isUpdating then None
      else if bookingStatus = accepted then Some (onStatusUpdate on_the_way)
      else if bookingStatus = on_the_way then Some (onStatusUpdate completed)
      else None)"

text \<open>
  The state of the chat screen that the button reads: \<^verbatim>\<open>isRider\<close> (initially false) and
  \<^verbatim>\<open>bookingStatus\<close> (initially \<^verbatim>\<open>'pending'\<close>).
\<close>

record chat_screen =
  isRider_state :: bool
  bookingStatus :: booking_status

definition initial_screen :: chat_screen where
  "initial_screen = \<lparr>isRider_state = False, bookingStatus = pending\<rparr>"

text \<open>
  The part of \<^verbatim>\<open>fetchInitialData\<close> that sets this state. The booking is read with
  \<^verbatim>\<open>.single()\<close> under the SELECT policy, together with the profile of its rider;
  \<^verbatim>\<open>bookingData.rider.id\<close> throws when there is no rider or no such profile. On an
  error the state stays as it is; otherwise \<^verbatim>\<open>isRider\<close> becomes
  \<^verbatim>\<open>rider_id === user?.id\<close> and \<^verbatim>\<open>bookingStatus\<close> the stored status. Nothing else
  sets \<^verbatim>\<open>isRider\<close>.
\<close>

definition fetchInitialData :: "uuid option \<Rightarrow> uuid \<Rightarrow> store \<Rightarrow> chat_screen \<Rightarrow> chat_screen" where
  "fetchInitialData user bookingId st scr =
     (case filter (\<lambda>b. b_id b = bookingId \<and> select_using user st b) (bookings st) of
        [bookingData] \<Rightarrow>
          (case rider_id bookingData of
             None \<Rightarrow> scr
           | Some r \<Rightarrow>
               (case find (\<lambda>p. p_id p = r) (profiles st) of
                  None \<Rightarrow> scr
                | Some rider \<Rightarrow>
                    scr\<lparr>isRider_state := (user = Some r), bookingStatus := status bookingData\<rparr>))
      | _ \<Rightarrow> scr)"

text \<open>
  The button as the chat screen renders it: only under \<^verbatim>\<open>isRider &&\<close>, with
  \<^verbatim>\<open>onStatusUpdate = updateBookingStatus\<close>, which reads the screen's
  \<^verbatim>\<open>bookingStatus\<close> and sets it on success. The result is the alert shown (if any),
  the screen afterwards, and the store.
\<close>

definition pressStatusButton ::
  "chat_screen \<Rightarrow> uuid option \<Rightarrow> uuid \<Rightarrow> store \<Rightarrow> (alert option \<times> chat_screen) \<times> store" where
  "pressStatusButton scr uid bookingId st =
     (if \<not> isRider_state scr then ((None, scr), st)
      else
        (case handlePress False (bookingStatus scr)
                (\<lambda>newStatus. updateBookingStatus uid bookingId (bookingStatus scr) newStatus st) of
           None \<Rightarrow> ((None, scr), st)
         | Some ((a, bookingStatus'), st') \<Rightarrow>
             ((Some a, scr\<lparr>bookingStatus := bookingStatus'\<rparr>), st')))"

section \<open>ChatScreen: the message view\<close>

text \<open>
  The screen's \<^verbatim>\<open>Message\<close> type. The \<^verbatim>\<open>messages\<close> relation has no image or file
  column, so \<^verbatim>\<open>message.image_url || null\<close> and its siblings are \<open>None\<close>.
\<close>

record MessageSender =
  s_id :: uuid
  s_username :: string
  s_avatar_url :: string

record Message =
  id_m :: uuid
  content :: string
  created_at_m :: timestamptz
  sender_id :: uuid
  booking_id :: uuid
  sender :: MessageSender
  image_url :: "string option"
  file_url :: "string option"
  file_name :: "string option"

definition with_sender :: "message \<Rightarrow> profile \<Rightarrow> Message" where
  "with_sender msg senderProfile =
     \<lparr>id_m = m_id msg,
      content = m_content msg,
      created_at_m = m_created_at msg,
      sender_id = m_sender_id msg,
      booking_id = m_booking_id msg,
      sender = \<lparr>s_id = p_id senderProfile,
                s_username = or_else (username senderProfile) ''Unknown'',
                s_avatar_url = (case avatar_url senderProfile of None \<Rightarrow> [] | Some a \<Rightarrow> a)\<rparr>,
      image_url = None,
      file_url = None,
      file_name = None\<rparr>"

text \<open>
  The policies of \<^verbatim>\<open>messages\<close> (SELECT and INSERT): the caller is the owner or the rider
  of the message's booking.
\<close>

definition can_send_message :: "uuid option \<Rightarrow> uuid \<Rightarrow> store \<Rightarrow> bool" where
  "can_send_message uid bid st =
     (\<exists>b \<in> set (bookings st). b_id b = bid \<and> (is_owner uid b \<or> is_rider_of uid b))"

definition select_messages :: "uuid option \<Rightarrow> uuid \<Rightarrow> store \<Rightarrow> message list" where
  "select_messages uid bookingId st =
     sort_key m_created_at
       (filter (\<lambda>m. m_booking_id m = bookingId \<and> can_send_message uid (m_booking_id m) st)
          (messages st))"

text \<open>
  One run of the \<^verbatim>\<open>setInterval\<close> callback. \<open>messagesError\<close> and \<open>profilesError\<close>
  say whether the store failed to answer the query; the result is the view after the
  cycle and whether \<^verbatim>\<open>'Error polling messages'\<close> was set.
\<close>

definition pollCycle ::
  "uuid option \<Rightarrow> uuid \<Rightarrow> bool \<Rightarrow> bool \<Rightarrow> store \<Rightarrow> Message list \<Rightarrow> Message list \<times> bool" where
  "pollCycle uid bookingId messagesError profilesError st view =
     (if messagesError then (view, True)
      else
        (let messagesData = select_messages uid bookingId st;
             senderIds = map m_sender_id messagesData
         in if profilesError then (view, True)
            else
              (let profilesData = filter (\<lambda>p. p_id p \<in> set senderIds) (profiles st);
                   messagesWithSenders =
                     List.map_filter
                       (\<lambda>msg. case find (\<lambda>p. p_id p = m_sender_id msg) profilesData of
                                None \<Rightarrow> None
                              | Some senderProfile \<Rightarrow> Some (with_sender msg senderProfile))
                       messagesData
               in (messagesWithSenders, False))))"

text \<open>
  The handler of an INSERT notification: the sender's profile is read with
  \<^verbatim>\<open>.single()\<close>; on its error the handler returns, otherwise the message goes to the
  end of the view.
\<close>

definition onInsert :: "store \<Rightarrow> message \<Rightarrow> Message list \<Rightarrow> Message list" where
  "onInsert st payload_new currentMessages =
     (case filter (\<lambda>p. p_id p = m_sender_id payload_new) (profiles st) of
        [senderProfile] \<Rightarrow> currentMessages @ [with_sender payload_new senderProfile]
      | _ \<Rightarrow> currentMessages)"

text \<open>
  The profile row that \<^verbatim>\<open>find\<close> attaches to a message: the first of the
  \<^verbatim>\<open>profiles\<close> relation with the sender's identifier, if there is one.
\<close>

definition sender_profile :: "store \<Rightarrow> message \<Rightarrow> profile option" where
  "sender_profile st msg = find (\<lambda>p. p_id p = m_sender_id msg) (profiles st)"

section \<open>Sending a message\<close>

text \<open>
  \<^verbatim>\<open>String.prototype.trim\<close> on the code units below 256: TAB, LF, VT, FF, CR, space
  and the no-break space.
\<close>

definition is_white_space :: "char \<Rightarrow> bool" where
  "is_white_space c =
     (c \<in> set [CHR 0x09, CHR 0x0A, CHR 0x0B, CHR 0x0C, CHR 0x0D, CHR 0x20, CHR 0xA0])"

definition trim :: "string \<Rightarrow> string" where
  "trim s = rev (dropWhile is_white_space (rev (dropWhile is_white_space s)))"

text \<open>
  \<^verbatim>\<open>sendMessage\<close> of the chat screen. The state is the text field, the view and the
  store; the result also holds whether the failure alert was shown. The inserted row is
  read back with its sender's profile, and \<^verbatim>\<open>message.sender.id\<close> throws inside the
  \<^verbatim>\<open>try\<close> when the profile is missing.
\<close>

definition sendMessage ::
  "string \<Rightarrow> uuid option \<Rightarrow> uuid option \<Rightarrow> store \<Rightarrow> Message list \<Rightarrow>
     (bool \<times> string \<times> Message list) \<times> store" where
  "sendMessage newMessage bookingId user st view =
     (if trim newMessage = [] then ((False, newMessage, view), st)
      else
        (case (bookingId, user) of
           (Some bid, Some u) \<Rightarrow>
             if \<not> can_send_message user bid st then ((True, newMessage, view), st)
             else
               (let row = \<lparr>m_id = uuid_generate_v4 (map m_id (messages st)),
                           m_booking_id = bid,
                           m_sender_id = u,
                           m_content = trim newMessage,
                           m_created_at = now st\<rparr>;
                    st' = st\<lparr>messages := messages st @ [row]\<rparr>
                in case find (\<lambda>p. p_id p = u) (profiles st) of
                     None \<Rightarrow> ((True, newMessage, view), st')
                   | Some p \<Rightarrow> ((False, [], view @ [with_sender row p]), st'))
         | _ \<Rightarrow> ((False, newMessage, view), st)))"

text \<open>\<^verbatim>\<open>ChatPanel.handleSendMessage\<close>: the same guard and insert; an error is logged.\<close>

definition handleSendMessage ::
  "string \<Rightarrow> uuid \<Rightarrow> uuid option \<Rightarrow> store \<Rightarrow> (bool \<times> string) \<times> store" where
  "handleSendMessage newMessage bookingId user st =
     (if trim newMessage = [] then ((False, newMessage), st)
      else
        (case user of
           None \<Rightarrow> ((False, newMessage), st)
         | Some u \<Rightarrow>
             if \<not> can_send_message user bookingId st then ((True, newMessage), st)
             else
               ((False, []),
                st\<lparr>messages := messages st @
                     [\<lparr>m_id = uuid_generate_v4 (map m_id (messages st)),
                       m_booking_id = bookingId,
                       m_sender_id = u,
                       m_content = trim newMessage,
                       m_created_at = now st\<rparr>]\<rparr>)))"

section \<open>TripScreen: creating a booking\<close>

text \<open>
  \<^verbatim>\<open>validateTripForm\<close> collects one entry per failed check, in the order of the source;
  the form is valid when there is none. \<^verbatim>\<open>handleSubmit\<close> stops without a session, stops
  with \<^verbatim>\<open>'Missing Information'\<close> when the form is not valid, and calls
  \<^verbatim>\<open>bookingService.createBooking\<close> otherwise. The form's \<^verbatim>\<open>scheduledTime\<close> is a
  \<^verbatim>\<open>Date\<close> that the screen always holds; it is an option here so that the check
  \<^verbatim>\<open>!formData.scheduledTime\<close> of the source has its branch.
\<close>

record FormData =
  name_f :: string
  pickupLocation :: string
  dropoffLocation :: string
  isASAP :: bool
  scheduledTime :: "timestamptz option"
  specialNotes :: string

definition validationErrors :: "FormData \<Rightarrow> (string \<times> string) list" where
  "validationErrors formData =
     (if trim (name_f formData) = [] then [(''name'', ''Trip name is required'')] else []) @
     (if trim (pickupLocation formData) = []
      then [(''pickupLocation'', ''Pickup location is required'')] else []) @
     (if trim (dropoffLocation formData) = []
      then [(''dropoffLocation'', ''Dropoff location is required'')] else []) @
     (if \<not> isASAP formData \<and> scheduledTime formData = None
      then [(''scheduledTime'', ''Please select a scheduled time'')] else [])"

definition validateTripForm :: "FormData \<Rightarrow> bool" where
  "validateTripForm formData = (validationErrors formData = [])"

datatype submit_result =
    Must_be_logged_in
  | Missing_Information "(string \<times> string) list"
  | Create_failed error
  | Created booking

definition handleSubmit :: "uuid option \<Rightarrow> FormData \<Rightarrow> store \<Rightarrow> submit_result \<times> store" where
  "handleSubmit user formData st =
     (if user = None then (Must_be_logged_in, st)
      else if \<not> validateTripForm formData then (Missing_Information (validationErrors formData), st)
      else
        (case createBooking user
                \<lparr>cb_pickup_location = pickupLocation formData,
                 cb_dropoff_location = dropoffLocation formData,
                 cb_scheduled_time = scheduledTime formData,
                 cb_notes = (if trim (specialNotes formData) = [] then None
                             else Some (''Special Notes: '' @ specialNotes formData)),
                 cb_is_asap = Some (isASAP formData),
                 cb_booking_type = trip,
                 cb_name = name_f formData\<rparr> st of
           (Inl e, st') \<Rightarrow> (Create_failed e, st')
         | (Inr b, st') \<Rightarrow> (Created b, st')))"

section \<open>TaskScreen: creating a booking\<close>

text \<open>
  The task form: \<^verbatim>\<open>validateTaskForm\<close> and \<^verbatim>\<open>handleSubmit\<close> of the task screen. The
  store preference is sent as the pickup location, and the items, the priority and the
  special notes as the notes.
\<close>

datatype task_priority = Low | Normal | High

definition priority_text :: "task_priority \<Rightarrow> string" where
  "priority_text p = (case p of Low \<Rightarrow> ''Low'' | Normal \<Rightarrow> ''Normal'' | High \<Rightarrow> ''High'')"

record TaskFormData =
  name_t :: string
  itemsList :: string
  storePreference :: string
  dropoffLocation_t :: string
  isASAP_t :: bool
  scheduledTime_t :: "timestamptz option"
  specialNotes_t :: string
  taskPriority :: task_priority

definition taskValidationErrors :: "TaskFormData \<Rightarrow> (string \<times> string) list" where
  "taskValidationErrors formData =
     (if trim (name_t formData) = [] then [(''name'', ''Task name is required'')] else []) @
     (if trim (itemsList formData) = []
      then [(''itemsList'', ''Please enter what you need'')] else []) @
     (if trim (storePreference formData) = []
      then [(''storePreference'', ''Store preference is required'')] else []) @
     (if trim (dropoffLocation_t formData) = []
      then [(''dropoffLocation'', ''Dropoff location is required'')] else []) @
     (if \<not> isASAP_t formData \<and> scheduledTime_t formData = None
      then [(''scheduledTime'', ''Please select a scheduled time'')] else [])"

definition validateTaskForm :: "TaskFormData \<Rightarrow> bool" where
  "validateTaskForm formData = (taskValidationErrors formData = [])"

definition handleSubmit_task ::
  "uuid option \<Rightarrow> TaskFormData \<Rightarrow> store \<Rightarrow> submit_result \<times> store" where
  "handleSubmit_task user formData st =
     (if user = None then (Must_be_logged_in, st)
      else if \<not> validateTaskForm formData
      then (Missing_Information (taskValidationErrors formData), st)
      else
        (case createBooking user
                \<lparr>cb_pickup_location = storePreference formData,
                 cb_dropoff_location = dropoffLocation_t formData,
                 cb_scheduled_time = scheduledTime_t formData,
                 cb_notes = Some (''Items: '' @ itemsList formData @ [CHR 0x0A] @
                              ''Priority: '' @ priority_text (taskPriority formData) @
                              (if trim (specialNotes_t formData) = [] then []
                               else [CHR 0x0A] @ ''Special Notes: '' @ specialNotes_t formData)),
                 cb_is_asap = Some (isASAP_t formData),
                 cb_booking_type = task,
                 cb_name = name_t formData\<rparr> st of
           (Inl e, st') \<Rightarrow> (Create_failed e, st')
         | (Inr b, st') \<Rightarrow> (Created b, st')))"

section \<open>Example data\<close>

text \<open>
  A customer (10) and a rider (20) with an available rider profile; booking 1 as
  \<^verbatim>\<open>createBooking\<close> writes it, and the same booking later in its life.
\<close>

definition booking1 :: booking where
  "booking1 =
     \<lparr>b_id = 1, user_id = 10, rider_id = None, pickup_location = ''A'',
      dropoff_location = ''B'', scheduled_time = None, status = pending, created_at = 100,
      updated_at = 100, notes_col = None, price = None, distance = None, duration = None,
      is_asap = True, completed_at = None, cancelled_at = None, cancelled_by = None,
      cancellation_reason = None, booking_type = trip, name = ''Trip''\<rparr>"

definition store0 :: store where
  "store0 =
     \<lparr>bookings = [], messages = [],
      profiles = [\<lparr>p_id = 10, username = ''customer'', avatar_url = None\<rparr>,
                  \<lparr>p_id = 20, username = ''rider'', avatar_url = None\<rparr>],
      rider_profiles = [\<lparr>rp_user_id = 20, is_available = True\<rparr>],
      now = 100\<rparr>"

definition form1 :: FormData where
  "form1 =
     \<lparr>name_f = ''Trip'', pickupLocation = ''A'', dropoffLocation = ''B'', isASAP = True,
      scheduledTime = None, specialNotes = []\<rparr>"

definition task1 :: TaskFormData where
  "task1 =
     \<lparr>name_t = ''Groceries'', itemsList = ''milk'', storePreference = ''Market'',
      dropoffLocation_t = ''B'', isASAP_t = True, scheduledTime_t = None,
      specialNotes_t = [], taskPriority = Normal\<rparr>"

definition store_with :: "booking \<Rightarrow> store" where
  "store_with b = store0\<lparr>bookings := [b], now := 200\<rparr>"

definition booking1_on_the_way :: booking where
  "booking1_on_the_way = booking1\<lparr>status := on_the_way, rider_id := Some 20\<rparr>"

definition booking1_completed :: booking where
  "booking1_completed = booking1\<lparr>status := completed, rider_id := Some 20, completed_at := Some 150\<rparr>"

text \<open>
  The chat of booking 1 after its acceptance: three messages, the second from the rider,
  who has no row in \<^verbatim>\<open>profiles\<close> yet, and the same store once that row exists.
\<close>

definition chat_message :: "uuid \<Rightarrow> uuid \<Rightarrow> timestamptz \<Rightarrow> string \<Rightarrow> message" where
  "chat_message i s t c =
     \<lparr>m_id = i, m_booking_id = 1, m_sender_id = s, m_content = c, m_created_at = t\<rparr>"

definition store_chat :: store where
  "store_chat =
     \<lparr>bookings = [booking1\<lparr>status := accepted, rider_id := Some 20\<rparr>],
      messages = [chat_message 1 10 110 ''hello'', chat_message 2 20 120 ''on my way'',
                  chat_message 3 10 130 ''thanks''],
      profiles = [\<lparr>p_id = 10, username = ''customer'', avatar_url = None\<rparr>],
      rider_profiles = [\<lparr>rp_user_id = 20, is_available = True\<rparr>],
      now = 200\<rparr>"

definition store_chat_later :: store where
  "store_chat_later =
     store_chat\<lparr>profiles := profiles store_chat @
       [\<lparr>p_id = 20, username = ''rider'', avatar_url = None\<rparr>]\<rparr>"

text \<open>Four bookings of customer 10: two pending and unassigned, one accepted, one cancelled.\<close>

definition store_listing :: store where
  "store_listing =
     store0\<lparr>bookings :=
       [booking1,
        booking1\<lparr>b_id := 2, status := accepted, rider_id := Some 20, created_at := 150\<rparr>,
        booking1\<lparr>b_id := 3, created_at := 200\<rparr>,
        booking1\<lparr>b_id := 4, status := cancelled, created_at := 250\<rparr>]\<rparr>"

text \<open>
  One life of booking 1: the trip form creates it, the rider accepts it through
  \<^verbatim>\<open>riderService.acceptBooking\<close>, opens the chat screen and presses the status button
  twice, and the customer then cancels it from the details screen.
\<close>

definition lifecycle :: "store list" where
  "lifecycle =
     (let st1 = snd (handleSubmit (Some 10) form1 store0);
          st2 = snd (rider_acceptBooking (Some 20) 1 st1);
          scr = fetchInitialData (Some 20) 1 st2 initial_screen;
          r3 = pressStatusButton scr (Some 20) 1 st2;
          r4 = pressStatusButton (snd (fst r3)) (Some 20) 1 (snd r3);
          st5 = snd (cancelBooking (Some 10) 1 ''Cancelled by user'' (snd r4))
      in [st1, st2, snd r3, snd r4, st5])"

section \<open>Auxiliary facts\<close>

lemmas policy_defs =
  select_using_def update_using_def update_check_def is_owner_def is_rider_of_def
  has_rider_profile_def has_available_rider_profile_def

lemmas store_defs = single_def update_bookings_def Let_def update_updated_at_column_def

lemmas example_defs =
  store_with_def store0_def booking1_def booking1_completed_def booking1_on_the_way_def form1_def

lemmas screen_defs =
  fetchInitialData_def initial_screen_def pressStatusButton_def handlePress_def
  updateBookingStatus_def

lemma map_if_no_target: "\<forall>b \<in> set bs. \<not> P b \<Longrightarrow> map (\<lambda>b. if P b then f b else b) bs = bs"
  by (induction bs) auto

subsection \<open>The stored procedure is a conditioned write\<close>

lemma accept_booking_unavailable:
  assumes "\<not> (\<exists>b \<in> set (bookings st). b_id b = bid \<and> status b = pending \<and> rider_id b = None)"
  shows "accept_booking uid bid st =
           (Inl (if has_available_rider_profile uid st then Booking_is_not_available_for_acceptance
                 else User_is_not_an_available_rider), st)"
  using assms by (simp add: accept_booking_def)

lemma accept_booking_claims:
  assumes "has_available_rider_profile uid st"
    and "\<exists>b \<in> set (bookings st). b_id b = bid \<and> status b = pending \<and> rider_id b = None"
  shows "accept_booking uid bid st =
           (Inr (), st\<lparr>bookings := map (\<lambda>b. if b_id b = bid \<and> status b = pending \<and> rider_id b = None
                  then b\<lparr>status := accepted, rider_id := uid, updated_at := now st\<rparr> else b) (bookings st)\<rparr>)"
  using assms
  by (auto simp: accept_booking_def Let_def filter_empty_conv update_updated_at_column_def cong: if_cong)

subsection \<open>The update of the chat screen\<close>



subsection \<open>Cancelling as a stranger\<close>

lemma cancelBooking_by_stranger:
  assumes "\<forall>b \<in> set (bookings st). b_id b = bid \<longrightarrow> \<not> is_owner uid b \<and> \<not> is_rider_of uid b"
  shows "\<exists>e. cancelBooking uid bid reason st = (Inl e, st)"
proof -
  let ?set = "\<lambda>b. b\<lparr>status := cancelled, cancelled_at := Some (now st),
              cancelled_by := (case uid of None \<Rightarrow> cancelled_by b | Some u \<Rightarrow> Some u),
              cancellation_reason := Some reason\<rparr>"
  let ?T = "\<lambda>b. b_id b = bid \<and> select_using uid st b \<and> update_using uid st b"
  show ?thesis
  proof (cases "\<exists>b \<in> set (bookings st). ?T b")
    case True
    then obtain b where b: "b \<in> set (bookings st)" "?T b" by blast
    with assms have np: "\<not> is_owner uid b" "\<not> is_rider_of uid b" by auto
    have "\<not> update_check uid st (update_updated_at_column st (?set b))"
      using np by (simp add: update_check_def update_updated_at_column_def is_owner_def is_rider_of_def)
    with b have "\<exists>r \<in> set (map (\<lambda>b. update_updated_at_column st (?set b)) (filter ?T (bookings st))).
        \<not> (update_check uid st r \<and> select_using uid st r)" by auto
    then have "update_bookings uid (\<lambda>b. b_id b = bid) ?set st = (Inl Row_level_security_violation, st)"
      unfolding update_bookings_def Let_def by (simp only: if_True)
    then show ?thesis by (simp add: cancelBooking_def single_def)
  next
    case False
    then have e: "filter ?T (bookings st) = []" by (auto simp: filter_empty_conv)
    from False have m:
      "map (\<lambda>b. if ?T b then update_updated_at_column st (?set b) else b) (bookings st) = bookings st"
      by (intro map_if_no_target) simp
    have "update_bookings uid (\<lambda>b. b_id b = bid) ?set st = (Inr [], st)"
      unfolding update_bookings_def Let_def e m by simp
    then show ?thesis by (simp add: cancelBooking_def single_def)
  qed
qed

subsection \<open>The steps of the example life\<close>

lemma lifecycle_created:
  "handleSubmit (Some 10) form1 store0 = (Created booking1, store0\<lparr>bookings := [booking1]\<rparr>)"
  by (simp add: handleSubmit_def validateTripForm_def validationErrors_def trim_def
      is_white_space_def createBooking_def uuid_generate_v4_def Let_def example_defs)

lemma lifecycle_accepted:
  "rider_acceptBooking (Some 20) 1 (store0\<lparr>bookings := [booking1]\<rparr>) =
     (Inr (), store0\<lparr>bookings := [booking1\<lparr>status := accepted, rider_id := Some 20\<rparr>]\<rparr>)"
  by (simp add: rider_acceptBooking_def accept_booking_def policy_defs store_defs example_defs)

lemma lifecycle_screen:
  "fetchInitialData (Some 20) 1
     (store0\<lparr>bookings := [booking1\<lparr>status := accepted, rider_id := Some 20\<rparr>]\<rparr>) initial_screen =
   \<lparr>isRider_state = True, bookingStatus = accepted\<rparr>"
  by (simp add: screen_defs policy_defs example_defs)

lemma lifecycle_on_the_way:
  "pressStatusButton \<lparr>isRider_state = True, bookingStatus = accepted\<rparr> (Some 20) 1
     (store0\<lparr>bookings := [booking1\<lparr>status := accepted, rider_id := Some 20\<rparr>]\<rparr>) =
   ((Some Alert_Success, \<lparr>isRider_state = True, bookingStatus = on_the_way\<rparr>),
    store0\<lparr>bookings := [booking1\<lparr>status := on_the_way, rider_id := Some 20\<rparr>]\<rparr>)"
  by (simp add: screen_defs policy_defs store_defs example_defs)

lemma lifecycle_completed:
  "pressStatusButton \<lparr>isRider_state = True, bookingStatus = on_the_way\<rparr> (Some 20) 1
     (store0\<lparr>bookings := [booking1\<lparr>status := on_the_way, rider_id := Some 20\<rparr>]\<rparr>) =
   ((Some Alert_Success, \<lparr>isRider_state = True, bookingStatus = completed\<rparr>),
    store0\<lparr>bookings := [booking1\<lparr>status := completed, rider_id := Some 20\<rparr>]\<rparr>)"
  by (simp add: screen_defs policy_defs store_defs example_defs)

lemma lifecycle_cancelled:
  "cancelBooking (Some 10) 1 ''Cancelled by user''
     (store0\<lparr>bookings := [booking1\<lparr>status := completed, rider_id := Some 20\<rparr>]\<rparr>) =
   (Inr (booking1\<lparr>status := cancelled, rider_id := Some 20, cancelled_at := Some 100,
          cancelled_by := Some 10, cancellation_reason := Some ''Cancelled by user''\<rparr>),
    store0\<lparr>bookings := [booking1\<lparr>status := cancelled, rider_id := Some 20,
      cancelled_at := Some 100, cancelled_by := Some 10,
      cancellation_reason := Some ''Cancelled by user''\<rparr>]\<rparr>)"
  by (simp add: cancelBooking_def policy_defs store_defs example_defs)

subsection \<open>The poll cycle\<close>

lemmas chat_defs = store_chat_def store_chat_later_def chat_message_def booking1_def

lemma find_filter: "(\<And>x. P x \<Longrightarrow> Q x) \<Longrightarrow> find P (filter Q xs) = find P xs"
  by (induction xs) auto

text \<open>
  Restricting the profiles to the senders of the batch does not change which profile a
  message of the batch finds.
\<close>

lemma pollCycle_eq:
  "pollCycle uid bid False False st view =
     (List.map_filter (\<lambda>m. map_option (with_sender m) (sender_profile st m))
        (select_messages uid bid st), False)"
proof -
  let ?xs = "select_messages uid bid st"
  have "\<And>m. m \<in> set ?xs \<Longrightarrow>
      find (\<lambda>p. p_id p = m_sender_id m)
        (filter (\<lambda>p. p_id p \<in> set (map m_sender_id ?xs)) (profiles st))
      = sender_profile st m"
    unfolding sender_profile_def by (rule find_filter) auto
  then have "\<And>m. m \<in> set ?xs \<Longrightarrow>
      (case find (\<lambda>p. p_id p = m_sender_id m)
              (filter (\<lambda>p. p_id p \<in> set (map m_sender_id ?xs)) (profiles st)) of
         None \<Rightarrow> None | Some sp \<Rightarrow> Some (with_sender m sp))
      = map_option (with_sender m) (sender_profile st m)"
    by (simp split: option.splits)
  then show ?thesis
    unfolding pollCycle_def Let_def List.map_filter_def
    by (simp cong: map_cong filter_cong)
qed

lemma map_filter_ids:
  "map id_m (List.map_filter (\<lambda>m. map_option (with_sender m) (f m)) xs) =
     map m_id (filter (\<lambda>m. f m \<noteq> None) xs)"
  by (induction xs) (auto simp: List.map_filter_def with_sender_def)

lemma map_filter_times:
  "map created_at_m (List.map_filter (\<lambda>m. map_option (with_sender m) (f m)) xs) =
     map m_created_at (filter (\<lambda>m. f m \<noteq> None) xs)"
  by (induction xs) (auto simp: List.map_filter_def with_sender_def)

lemma distinct_ids_select:
  assumes "distinct (map m_id (messages st))"
  shows "distinct (map m_id (select_messages uid bid st))"
proof -
  from assms have "distinct (map m_id
      (filter (\<lambda>m. m_booking_id m = bid \<and> can_send_message uid (m_booking_id m) st) (messages st)))"
    by (rule distinct_map_filter)
  then show ?thesis unfolding select_messages_def by (simp add: distinct_map)
qed

lemma sorted_select: "sorted (map m_created_at (select_messages uid bid st))"
  unfolding select_messages_def by simp

lemma select_chat: "select_messages (Some 10) 1 store_chat = messages store_chat"
  by (simp add: select_messages_def can_send_message_def is_owner_def is_rider_of_def chat_defs)

lemma select_chat_later: "select_messages (Some 10) 1 store_chat_later = messages store_chat"
  by (simp add: select_messages_def can_send_message_def is_owner_def is_rider_of_def chat_defs)

subsection \<open>Trimming\<close>

lemma dropWhile_all_iff: "(\<forall>x \<in> set (dropWhile P xs). P x) = (dropWhile P xs = [])"
proof
  assume all: "\<forall>x \<in> set (dropWhile P xs). P x"
  show "dropWhile P xs = []"
  proof (rule ccontr)
    assume ne: "dropWhile P xs \<noteq> []"
    then have "\<not> P (hd (dropWhile P xs))" by (rule hd_dropWhile)
    moreover from ne have "hd (dropWhile P xs) \<in> set (dropWhile P xs)" by (rule hd_in_set)
    ultimately show False using all by blast
  qed
next
  assume "dropWhile P xs = []"
  then show "\<forall>x \<in> set (dropWhile P xs). P x" by (simp only: set_simps ball_empty)
qed

lemma trim_blank: "(trim s = []) = list_all is_white_space s"
proof -
  have "(trim s = []) = (\<forall>x \<in> set (dropWhile is_white_space s). is_white_space x)"
    by (simp add: trim_def)
  also have "\<dots> = (dropWhile is_white_space s = [])" by (rule dropWhile_all_iff)
  also have "\<dots> = list_all is_white_space s" by (simp add: list_all_iff)
  finally show ?thesis .
qed

lemma dropWhile_rev_split:
  "xs = rev (dropWhile P (rev xs)) @ rev (takeWhile P (rev xs))"
proof -
  have "rev (takeWhile P (rev xs) @ dropWhile P (rev xs)) = rev (rev xs)"
    by (simp only: takeWhile_dropWhile_id)
  then show ?thesis by (simp only: rev_append rev_rev_ident)
qed

lemma trim_decompose:
  "\<exists>pre suf. s = pre @ trim s @ suf \<and> list_all is_white_space pre \<and> list_all is_white_space suf"
proof -
  let ?d = "dropWhile is_white_space s"
  let ?suf = "rev (takeWhile is_white_space (rev ?d))"
  have d: "?d = trim s @ ?suf"
    unfolding trim_def by (rule dropWhile_rev_split)
  have "s = takeWhile is_white_space s @ ?d" by simp
  with d have "s = takeWhile is_white_space s @ trim s @ ?suf" by simp
  moreover have "list_all is_white_space (takeWhile is_white_space s)"
    by (auto simp: list_all_iff dest: set_takeWhileD)
  moreover have "list_all is_white_space ?suf"
    by (auto simp: list_all_iff dest: set_takeWhileD)
  ultimately show ?thesis by blast
qed

lemma trim_ends:
  assumes "trim s \<noteq> []"
  shows "\<not> is_white_space (hd (trim s)) \<and> \<not> is_white_space (last (trim s))"
proof -
  let ?d = "dropWhile is_white_space s"
  let ?e = "dropWhile is_white_space (rev ?d)"
  from assms have e: "?e \<noteq> []" by (simp add: trim_def)
  then have "\<not> is_white_space (hd ?e)" by (rule hd_dropWhile)
  with e have l: "\<not> is_white_space (last (trim s))" by (simp add: trim_def last_rev)
  have "?d = [] \<Longrightarrow> ?e = []" by (simp only: rev.simps dropWhile.simps)
  with e have d: "?d \<noteq> []" by blast
  then have hd: "\<not> is_white_space (hd ?d)" by (rule hd_dropWhile)
  have "?d = trim s @ rev (takeWhile is_white_space (rev ?d))"
    unfolding trim_def by (rule dropWhile_rev_split)
  with assms have "hd ?d = hd (trim s)" by (metis hd_append2)
  with hd l show ?thesis by simp
qed

subsection \<open>Descending order\<close>

lemma sorted_desc_rev_sort: "sorted_wrt (\<lambda>x y. y \<le> x) (map f (rev (sort_key f xs)))"
proof -
  have "sorted_wrt (\<lambda>x y. y \<le> x) (rev (map f (sort_key f xs)))"
    unfolding sorted_wrt_rev by simp
  then show ?thesis by (simp only: rev_map)
qed

section \<open>The acceptance protocol\<close>

text \<open>
  C1. The claim: every \<^verbatim>\<open>acceptBooking(bookingId, riderId)\<close> is one write conditioned on
  \<^verbatim>\<open>status = 'pending' AND rider_id IS NULL\<close>, and when the condition fails no row
  changes and the call fails. The stored procedure \<^verbatim>\<open>accept_booking\<close> is that write
  (\<open>accept_booking_unavailable\<close>, \<open>accept_booking_claims\<close>). The client function
  \<^verbatim>\<open>bookingService.acceptBooking\<close> filters on the identifier only: called by the
  assigned rider on booking 1 after its completion, it succeeds and the stored status
  goes from \<^verbatim>\<open>'completed'\<close> back to \<^verbatim>\<open>'accepted'\<close>.
\<close>

theorem acceptBooking_overwrites_completed:
  "status booking1_completed = completed \<and> rider_id booking1_completed = Some 20 \<and>
   acceptBooking (Some 20) 1 20 (store_with booking1_completed) =
     (Inr (booking1_completed\<lparr>status := accepted, updated_at := 200\<rparr>),
      store_with (booking1_completed\<lparr>status := accepted, updated_at := 200\<rparr>))"
  by (simp add: acceptBooking_def policy_defs store_defs example_defs)

section \<open>The status state machine\<close>

text \<open>
  C2. The claim: the statuses a booking goes through are a prefix of pending, accepted,
  on_the_way, completed, or end in cancelled entered from a state that is not terminal.
  In the example life the customer's \<^verbatim>\<open>cancelBooking\<close> comes after the rider has
  completed the booking; the update is filtered by the identifier only, so the statuses
  observed are pending, accepted, on_the_way, completed, cancelled.
\<close>

theorem lifecycle_cancel_after_completed:
  "map (\<lambda>st. map status (bookings st)) lifecycle =
     [[pending], [accepted], [on_the_way], [completed], [cancelled]]"
  unfolding lifecycle_def Let_def lifecycle_created snd_conv lifecycle_accepted
    lifecycle_screen lifecycle_on_the_way fst_conv lifecycle_completed lifecycle_cancelled
  by (simp add: example_defs)

text \<open>
  C3. The claim: after every operation \<^verbatim>\<open>completed_at\<close> is set exactly when the status
  is completed. The rider opens the chat of booking 1 and the button completes it through
  \<^verbatim>\<open>updateBookingStatus('completed')\<close>, which writes \<^verbatim>\<open>status\<close> and \<^verbatim>\<open>updated_at\<close> only:
  the row is completed and its \<^verbatim>\<open>completed_at\<close> is still NULL.
\<close>

theorem status_button_completes_without_completed_at:
  "pressStatusButton
     (fetchInitialData (Some 20) 1 (store_with booking1_on_the_way) initial_screen)
     (Some 20) 1 (store_with booking1_on_the_way) =
     ((Some Alert_Success, \<lparr>isRider_state = True, bookingStatus = completed\<rparr>),
      store_with (booking1_on_the_way\<lparr>status := completed, updated_at := 200\<rparr>)) \<and>
   status (booking1_on_the_way\<lparr>status := completed, updated_at := 200\<rparr>) = completed \<and>
   completed_at (booking1_on_the_way\<lparr>status := completed, updated_at := 200\<rparr>) = None"
  by (simp add: screen_defs policy_defs store_defs example_defs)




text \<open>
  C5. The claim: \<^verbatim>\<open>cancelBooking\<close> fails with InvalidTransition and leaves the row
  unchanged when the booking is already completed or cancelled. The update is filtered
  by the identifier only (a caller who is neither owner nor rider is refused by the
  policies, \<open>cancelBooking_by_stranger\<close>): the owner's call on the completed booking 1
  succeeds and the row becomes cancelled, with \<^verbatim>\<open>completed_at\<close> still set.
\<close>

theorem cancelBooking_accepts_completed:
  "status booking1_completed = completed \<and> user_id booking1_completed = 10 \<and>
   cancelBooking (Some 10) 1 ''Cancelled by user'' (store_with booking1_completed) =
     (Inr (booking1_completed\<lparr>status := cancelled, updated_at := 200, cancelled_at := Some 200,
            cancelled_by := Some 10, cancellation_reason := Some ''Cancelled by user''\<rparr>),
      store_with (booking1_completed\<lparr>status := cancelled, updated_at := 200,
        cancelled_at := Some 200, cancelled_by := Some 10,
        cancellation_reason := Some ''Cancelled by user''\<rparr>))"
  by (simp add: cancelBooking_def policy_defs store_defs example_defs)

section \<open>The message view\<close>

text \<open>
  C6. The claim: a message delivered by the poll and by the subscription appears once
  in the view, and the view is always sorted by creation time. The handler of the
  subscription appends without looking for the identifier: after a poll of the chat of
  booking 1 has delivered messages 1 and 3, the notification of message 1 makes the view
  1, 3, 1.
\<close>

theorem onInsert_after_poll_duplicates:
  "map id_m (onInsert store_chat (chat_message 1 10 110 ''hello'')
              (fst (pollCycle (Some 10) 1 False False store_chat []))) = [1, 3, 1] \<and>
   map created_at_m (onInsert store_chat (chat_message 1 10 110 ''hello'')
              (fst (pollCycle (Some 10) 1 False False store_chat []))) = [110, 130, 110]"
  unfolding pollCycle_def Let_def select_chat
  by (simp add: onInsert_def List.map_filter_def with_sender_def chat_defs)

text \<open>
  C6, as the code has it. Identifiers are the primary key of \<^verbatim>\<open>messages\<close>. The view
  that an answered poll cycle sets is, whatever the view was before, the batch of the
  cycle without the messages whose sender has no profile, each message with that
  profile attached; the batch holds exactly the stored messages of the booking that the
  caller may read, in ascending order of creation time; so the view holds each
  identifier at most once and is sorted by creation time. The handler of the
  subscription appends the notified message at the end of the view when the sender's
  profile is read, and leaves the view otherwise; it does not look for the identifier,
  so a message that the view already holds is in it twice afterwards, until the next
  answered poll cycle.
\<close>

theorem pollCycle_view:
  assumes "distinct (map m_id (messages st))"
  shows "fst (pollCycle uid bid False False st view) =
           List.map_filter (\<lambda>m. map_option (with_sender m) (sender_profile st m))
             (select_messages uid bid st) \<and>
         set (select_messages uid bid st) =
           {m \<in> set (messages st). m_booking_id m = bid \<and> can_send_message uid bid st} \<and>
         distinct (map m_id (select_messages uid bid st)) \<and>
         sorted (map m_created_at (select_messages uid bid st)) \<and>
         distinct (map id_m (fst (pollCycle uid bid False False st view))) \<and>
         sorted (map created_at_m (fst (pollCycle uid bid False False st view))) \<and>
         fst (pollCycle uid bid False False st view) = fst (pollCycle uid bid False False st view') \<and>
         (\<forall>p. filter (\<lambda>p. p_id p = m_sender_id payload) (profiles st) = [p] \<longrightarrow>
              onInsert st payload view = view @ [with_sender payload p]) \<and>
         ((\<nexists>p. filter (\<lambda>p. p_id p = m_sender_id payload) (profiles st) = [p]) \<longrightarrow>
              onInsert st payload view = view) \<and>
         ((\<exists>p. filter (\<lambda>p. p_id p = m_sender_id payload) (profiles st) = [p]) \<and>
          m_id payload \<in> set (map id_m view) \<longrightarrow>
              \<not> distinct (map id_m (onInsert st payload view)))"
proof -
  have v: "fst (pollCycle uid bid False False st view) =
           List.map_filter (\<lambda>m. map_option (with_sender m) (sender_profile st m))
             (select_messages uid bid st)"
    by (simp add: pollCycle_eq)
  have b: "set (select_messages uid bid st) =
           {m \<in> set (messages st). m_booking_id m = bid \<and> can_send_message uid bid st}"
    by (auto simp: select_messages_def)
  have d: "distinct (map id_m (fst (pollCycle uid bid False False st view))) \<and>
         sorted (map created_at_m (fst (pollCycle uid bid False False st view))) \<and>
         fst (pollCycle uid bid False False st view) = fst (pollCycle uid bid False False st view')"
    using distinct_ids_select [OF assms, of uid bid] sorted_select [of uid bid st]
    by (simp add: pollCycle_eq map_filter_ids map_filter_times distinct_map_filter sorted_filter)
  have i1: "\<forall>p. filter (\<lambda>p. p_id p = m_sender_id payload) (profiles st) = [p] \<longrightarrow>
              onInsert st payload view = view @ [with_sender payload p]"
    by (simp add: onInsert_def)
  have i2: "(\<nexists>p. filter (\<lambda>p. p_id p = m_sender_id payload) (profiles st) = [p]) \<longrightarrow>
              onInsert st payload view = view"
    by (auto simp: onInsert_def split: list.splits)
  have i3: "(\<exists>p. filter (\<lambda>p. p_id p = m_sender_id payload) (profiles st) = [p]) \<and>
          m_id payload \<in> set (map id_m view) \<longrightarrow>
              \<not> distinct (map id_m (onInsert st payload view))"
    by (auto simp: onInsert_def with_sender_def)
  from v b d i1 i2 i3 distinct_ids_select [OF assms, of uid bid] sorted_select [of uid bid st]
  show ?thesis by blast
qed

theorem pollCycle_view_witness:
  "distinct (map m_id (messages store_chat)) \<and>
   map id_m (fst (pollCycle (Some 10) 1 False False store_chat [])) = [1, 3] \<and>
   \<not> distinct (map id_m (onInsert store_chat (chat_message 1 10 110 ''hello'')
         (fst (pollCycle (Some 10) 1 False False store_chat [])))) \<and>
   map id_m (fst (pollCycle (Some 10) 1 False False store_chat
      (onInsert store_chat (chat_message 1 10 110 ''hello'')
         (fst (pollCycle (Some 10) 1 False False store_chat []))))) = [1, 3]"
proof -
  let ?m = "chat_message 1 10 110 ''hello''"
  let ?v = "fst (pollCycle (Some 10) 1 False False store_chat [])"
  have d: "distinct (map m_id (messages store_chat))" by (simp add: chat_defs)
  have e: "map id_m (List.map_filter (\<lambda>m. map_option (with_sender m) (sender_profile store_chat m))
             (messages store_chat)) = [1, 3]"
    by (simp add: List.map_filter_def with_sender_def sender_profile_def chat_defs)
  have p: "\<exists>p. filter (\<lambda>p. p_id p = m_sender_id ?m) (profiles store_chat) = [p]"
    by (simp add: chat_defs)
  have i: "m_id ?m = 1" by (simp add: chat_message_def)
  note first = pollCycle_view [OF d, of "Some 10" 1 "[]" "[]" ?m]
  from first [THEN conjunct1] e have v: "map id_m ?v = [1, 3]"
    unfolding select_chat by simp
  from v i have "m_id ?m \<in> set (map id_m ?v)" by simp
  with p have h: "(\<exists>p. filter (\<lambda>p. p_id p = m_sender_id ?m) (profiles store_chat) = [p]) \<and>
      m_id ?m \<in> set (map id_m ?v)" by (rule conjI)
  note push = pollCycle_view [OF d, of "Some 10" 1 ?v "[]" ?m]
  from push have "(\<exists>p. filter (\<lambda>p. p_id p = m_sender_id ?m) (profiles store_chat) = [p]) \<and>
      m_id ?m \<in> set (map id_m ?v) \<longrightarrow> \<not> distinct (map id_m (onInsert store_chat ?m ?v))"
    by (elim conjE)
  from this h have dup: "\<not> distinct (map id_m (onInsert store_chat ?m ?v))" by (rule mp)
  note again = pollCycle_view [OF d, of "Some 10" 1 "onInsert store_chat ?m ?v" "[]" ?m]
  from again have
    "fst (pollCycle (Some 10) 1 False False store_chat (onInsert store_chat ?m ?v)) = ?v"
    by (elim conjE)
  with v have "map id_m (fst (pollCycle (Some 10) 1 False False store_chat
      (onInsert store_chat ?m ?v))) = [1, 3]" by (simp only:)
  with d v dup show ?thesis by (intro conjI)
qed

text \<open>
  C8. In a poll cycle whose queries are answered, the view delivered holds, in the order
  of the batch, exactly the messages of the batch whose sender has a profile, each with
  that profile attached; a message without one is left out and the others are
  delivered; and in any later cycle in which the message is in the batch and its
  sender's profile is found, the message is delivered. When a query is not answered the
  cycle delivers nothing and leaves the view. The batch is in ascending order of
  creation time.
\<close>

theorem pollCycle_omits_missing_profiles:
  "map id_m (fst (pollCycle uid bid False False st view)) =
     map m_id (filter (\<lambda>m. sender_profile st m \<noteq> None) (select_messages uid bid st)) \<and>
   (\<forall>x \<in> set (fst (pollCycle uid bid False False st view)).
      \<exists>m \<in> set (select_messages uid bid st).
        \<exists>p. sender_profile st m = Some p \<and> x = with_sender m p) \<and>
   (\<forall>m \<in> set (select_messages uid bid st'). sender_profile st' m \<noteq> None \<longrightarrow>
      m_id m \<in> set (map id_m (fst (pollCycle uid bid False False st' view')))) \<and>
   pollCycle uid bid True profilesError st view = (view, True) \<and>
   pollCycle uid bid False True st view = (view, True) \<and>
   sorted (map m_created_at (select_messages uid bid st))"
proof -
  have a: "\<And>st view. map id_m (fst (pollCycle uid bid False False st view)) =
     map m_id (filter (\<lambda>m. sender_profile st m \<noteq> None) (select_messages uid bid st))"
    by (simp add: pollCycle_eq map_filter_ids)
  have b: "\<forall>x \<in> set (fst (pollCycle uid bid False False st view)).
      \<exists>m \<in> set (select_messages uid bid st).
        \<exists>p. sender_profile st m = Some p \<and> x = with_sender m p"
    by (fastforce simp: pollCycle_eq List.map_filter_def)
  have c: "\<forall>m \<in> set (select_messages uid bid st'). sender_profile st' m \<noteq> None \<longrightarrow>
      m_id m \<in> set (map id_m (fst (pollCycle uid bid False False st' view')))"
    unfolding a by auto
  have d: "pollCycle uid bid True profilesError st view = (view, True) \<and>
           pollCycle uid bid False True st view = (view, True)"
    by (simp add: pollCycle_def)
  from a b c d sorted_select [of uid bid st] show ?thesis by blast
qed

theorem pollCycle_omits_missing_profiles_witness:
  "chat_message 2 20 120 ''on my way'' \<in> set (select_messages (Some 10) 1 store_chat_later) \<and>
   sender_profile store_chat (chat_message 2 20 120 ''on my way'') = None \<and>
   sender_profile store_chat_later (chat_message 2 20 120 ''on my way'') \<noteq> None \<and>
   map id_m (fst (pollCycle (Some 10) 1 False False store_chat [])) = [1, 3] \<and>
   2 \<in> set (map id_m (fst (pollCycle (Some 10) 1 False False store_chat_later [])))"
proof -
  let ?m = "chat_message 2 20 120 ''on my way''"
  have m: "?m \<in> set (select_messages (Some 10) 1 store_chat_later)"
    unfolding select_chat_later by (simp add: store_chat_def)
  have p: "sender_profile store_chat ?m = None" "sender_profile store_chat_later ?m \<noteq> None"
    by (simp_all add: sender_profile_def chat_defs)
  have f: "map m_id (filter (\<lambda>m. sender_profile store_chat m \<noteq> None) (messages store_chat)) = [1, 3]"
    by (simp add: sender_profile_def chat_defs)
  have i: "m_id ?m = 2" by (simp add: chat_message_def)
  note inst = pollCycle_omits_missing_profiles
    [of "Some 10" 1 store_chat "[]" store_chat_later "[]" False]
  from inst have "map id_m (fst (pollCycle (Some 10) 1 False False store_chat [])) =
      map m_id (filter (\<lambda>m. sender_profile store_chat m \<noteq> None)
        (select_messages (Some 10) 1 store_chat))"
    by (rule conjunct1)
  then have a: "map id_m (fst (pollCycle (Some 10) 1 False False store_chat [])) = [1, 3]"
    unfolding select_chat f .
  from inst have "\<forall>m \<in> set (select_messages (Some 10) 1 store_chat_later).
      sender_profile store_chat_later m \<noteq> None \<longrightarrow>
      m_id m \<in> set (map id_m (fst (pollCycle (Some 10) 1 False False store_chat_later [])))"
    by (rule conjunct2 [THEN conjunct2, THEN conjunct1])
  with m p(2) have "m_id ?m \<in> set (map id_m (fst (pollCycle (Some 10) 1 False False store_chat_later [])))"
    by blast
  then have c: "2 \<in> set (map id_m (fst (pollCycle (Some 10) 1 False False store_chat_later [])))"
    unfolding i .
  from m p a c show ?thesis by (intro conjI)
qed

section \<open>Creating a booking\<close>

text \<open>
  C7. The claim: the booking is refused when pickup, drop-off or name is empty, or when
  it is not ASAP and has no scheduled time, and is inserted otherwise. The valid trip
  form, submitted by the logged-in user 20 who has no row in \<^verbatim>\<open>profiles\<close>, is passed
  to \<^verbatim>\<open>createBooking\<close>, whose insert the store refuses: nothing is inserted, and the
  failure is the store's, not a validation error. And the forms test the trimmed fields:
  with a pickup of one space and the other fields of the valid form, none of the
  claim's conditions holds, and the submission stops with the pickup error and writes
  nothing.
\<close>

theorem handleSubmit_valid_form_not_inserted:
  "validateTripForm form1 \<and>
   handleSubmit (Some 20) form1 store_chat = (Create_failed Foreign_key_violation, store_chat) \<and>
   pickupLocation (form1\<lparr>pickupLocation := '' ''\<rparr>) \<noteq> [] \<and>
   dropoffLocation (form1\<lparr>pickupLocation := '' ''\<rparr>) \<noteq> [] \<and>
   name_f (form1\<lparr>pickupLocation := '' ''\<rparr>) \<noteq> [] \<and>
   isASAP (form1\<lparr>pickupLocation := '' ''\<rparr>) \<and>
   handleSubmit (Some 10) (form1\<lparr>pickupLocation := '' ''\<rparr>) store0 =
     (Missing_Information [(''pickupLocation'', ''Pickup location is required'')], store0)"
  by (simp add: handleSubmit_def validateTripForm_def validationErrors_def createBooking_def
      trim_def is_white_space_def store_chat_def example_defs)

text \<open>
  C7, as the code has it. For a logged-in user, the submission of the trip form stops
  with a non-empty list of validation errors and an unchanged store exactly when name,
  pickup or drop-off is empty after trimming, or the trip is not ASAP and has no
  scheduled time; the task form does so exactly when its name, items list, store
  preference (its pickup) or drop-off is empty after trimming, or the task is not ASAP
  and has no scheduled time. An empty field is a case of these. Otherwise
  \<^verbatim>\<open>createBooking\<close> is called: when the user has a row in \<^verbatim>\<open>profiles\<close> it appends
  one booking, pending, without rider, owned by the user, with the fields of the form;
  when the user has none, the store refuses the insert, the store's error is shown, and
  the store is unchanged.
\<close>

theorem handleSubmit_validates:
  "(if trim (name_f f) = [] \<or> trim (pickupLocation f) = [] \<or> trim (dropoffLocation f) = [] \<or>
       (\<not> isASAP f \<and> scheduledTime f = None)
    then \<exists>errs. errs \<noteq> [] \<and> handleSubmit (Some u) f st = (Missing_Information errs, st)
    else if \<exists>p \<in> set (profiles st). p_id p = u
    then \<exists>b. handleSubmit (Some u) f st = (Created b, st\<lparr>bookings := bookings st @ [b]\<rparr>) \<and>
             status b = pending \<and> rider_id b = None \<and> user_id b = u \<and>
             pickup_location b = pickupLocation f \<and> dropoff_location b = dropoffLocation f \<and>
             name b = name_f f \<and> is_asap b = isASAP f \<and> scheduled_time b = scheduledTime f \<and>
             booking_type b = trip
    else handleSubmit (Some u) f st = (Create_failed Foreign_key_violation, st)) \<and>
   (name_f f = [] \<or> pickupLocation f = [] \<or> dropoffLocation f = [] \<longrightarrow>
      (\<exists>errs. handleSubmit (Some u) f st = (Missing_Information errs, st))) \<and>
   (if trim (name_t g) = [] \<or> trim (itemsList g) = [] \<or> trim (storePreference g) = [] \<or>
       trim (dropoffLocation_t g) = [] \<or> (\<not> isASAP_t g \<and> scheduledTime_t g = None)
    then \<exists>errs. errs \<noteq> [] \<and> handleSubmit_task (Some u) g st = (Missing_Information errs, st)
    else if \<exists>p \<in> set (profiles st). p_id p = u
    then \<exists>b. handleSubmit_task (Some u) g st = (Created b, st\<lparr>bookings := bookings st @ [b]\<rparr>) \<and>
             status b = pending \<and> rider_id b = None \<and> user_id b = u \<and>
             pickup_location b = storePreference g \<and> dropoff_location b = dropoffLocation_t g \<and>
             name b = name_t g \<and> is_asap b = isASAP_t g \<and> scheduled_time b = scheduledTime_t g \<and>
             booking_type b = task
    else handleSubmit_task (Some u) g st = (Create_failed Foreign_key_violation, st)) \<and>
   (name_t g = [] \<or> storePreference g = [] \<or> dropoffLocation_t g = [] \<longrightarrow>
      (\<exists>errs. handleSubmit_task (Some u) g st = (Missing_Information errs, st)))"
proof -
  have e: "trim [] = []" by (simp add: trim_def)
  have trip: "(if trim (name_f f) = [] \<or> trim (pickupLocation f) = [] \<or> trim (dropoffLocation f) = [] \<or>
       (\<not> isASAP f \<and> scheduledTime f = None)
    then \<exists>errs. errs \<noteq> [] \<and> handleSubmit (Some u) f st = (Missing_Information errs, st)
    else if \<exists>p \<in> set (profiles st). p_id p = u
    then \<exists>b. handleSubmit (Some u) f st = (Created b, st\<lparr>bookings := bookings st @ [b]\<rparr>) \<and>
             status b = pending \<and> rider_id b = None \<and> user_id b = u \<and>
             pickup_location b = pickupLocation f \<and> dropoff_location b = dropoffLocation f \<and>
             name b = name_f f \<and> is_asap b = isASAP f \<and> scheduled_time b = scheduledTime f \<and>
             booking_type b = trip
    else handleSubmit (Some u) f st = (Create_failed Foreign_key_violation, st))"
    by (simp add: handleSubmit_def validateTripForm_def validationErrors_def createBooking_def
        Let_def)
  have trip_empty: "name_f f = [] \<or> pickupLocation f = [] \<or> dropoffLocation f = [] \<longrightarrow>
      (\<exists>errs. handleSubmit (Some u) f st = (Missing_Information errs, st))"
    using e by (auto simp: handleSubmit_def validateTripForm_def validationErrors_def)
  have task: "(if trim (name_t g) = [] \<or> trim (itemsList g) = [] \<or> trim (storePreference g) = [] \<or>
       trim (dropoffLocation_t g) = [] \<or> (\<not> isASAP_t g \<and> scheduledTime_t g = None)
    then \<exists>errs. errs \<noteq> [] \<and> handleSubmit_task (Some u) g st = (Missing_Information errs, st)
    else if \<exists>p \<in> set (profiles st). p_id p = u
    then \<exists>b. handleSubmit_task (Some u) g st = (Created b, st\<lparr>bookings := bookings st @ [b]\<rparr>) \<and>
             status b = pending \<and> rider_id b = None \<and> user_id b = u \<and>
             pickup_location b = storePreference g \<and> dropoff_location b = dropoffLocation_t g \<and>
             name b = name_t g \<and> is_asap b = isASAP_t g \<and> scheduled_time b = scheduledTime_t g \<and>
             booking_type b = task
    else handleSubmit_task (Some u) g st = (Create_failed Foreign_key_violation, st))"
    by (simp add: handleSubmit_task_def validateTaskForm_def taskValidationErrors_def
        createBooking_def Let_def)
  have task_empty: "name_t g = [] \<or> storePreference g = [] \<or> dropoffLocation_t g = [] \<longrightarrow>
      (\<exists>errs. handleSubmit_task (Some u) g st = (Missing_Information errs, st))"
    using e by (auto simp: handleSubmit_task_def validateTaskForm_def taskValidationErrors_def)
  from trip trip_empty task task_empty show ?thesis by (intro conjI)
qed

theorem handleSubmit_validates_witness:
  "(\<exists>b. handleSubmit (Some 10) form1 store0 =
          (Created b, store0\<lparr>bookings := bookings store0 @ [b]\<rparr>) \<and>
        status b = pending \<and> rider_id b = None \<and> user_id b = 10) \<and>
   (\<exists>errs. handleSubmit (Some 10) (form1\<lparr>dropoffLocation := []\<rparr>) store0 =
          (Missing_Information errs, store0)) \<and>
   (\<exists>b. handleSubmit_task (Some 10) task1 store0 =
          (Created b, store0\<lparr>bookings := bookings store0 @ [b]\<rparr>) \<and>
        status b = pending \<and> rider_id b = None \<and> user_id b = 10) \<and>
   (\<exists>errs. handleSubmit_task (Some 10) (task1\<lparr>itemsList := ''  ''\<rparr>) store0 =
          (Missing_Information errs, store0)) \<and>
   handleSubmit (Some 20) form1 store_chat = (Create_failed Foreign_key_violation, store_chat)"
proof -
  have f: "trim (name_f form1) \<noteq> []" "trim (pickupLocation form1) \<noteq> []"
    "trim (dropoffLocation form1) \<noteq> []" "isASAP form1"
    by (simp_all add: form1_def trim_def is_white_space_def)
  have t: "trim (name_t task1) \<noteq> []" "trim (itemsList task1) \<noteq> []"
    "trim (storePreference task1) \<noteq> []" "trim (dropoffLocation_t task1) \<noteq> []" "isASAP_t task1"
    by (simp_all add: task1_def trim_def is_white_space_def)
  have p10: "\<exists>p \<in> set (profiles store0). p_id p = 10" by (simp add: store0_def)
  have p20: "\<not> (\<exists>p \<in> set (profiles store_chat). p_id p = 20)" by (simp add: chat_defs)
  have b: "trim (itemsList (task1\<lparr>itemsList := ''  ''\<rparr>)) = []"
    by (simp add: trim_def is_white_space_def)
  from handleSubmit_validates [of form1 10 store0 task1] f t p10
  have 1: "\<exists>b. handleSubmit (Some 10) form1 store0 =
          (Created b, store0\<lparr>bookings := bookings store0 @ [b]\<rparr>) \<and>
        status b = pending \<and> rider_id b = None \<and> user_id b = 10"
    and 3: "\<exists>b. handleSubmit_task (Some 10) task1 store0 =
          (Created b, store0\<lparr>bookings := bookings store0 @ [b]\<rparr>) \<and>
        status b = pending \<and> rider_id b = None \<and> user_id b = 10"
    by auto
  from handleSubmit_validates [of "form1\<lparr>dropoffLocation := []\<rparr>" 10 store0
      "task1\<lparr>itemsList := ''  ''\<rparr>"] b
  have 2: "\<exists>errs. handleSubmit (Some 10) (form1\<lparr>dropoffLocation := []\<rparr>) store0 =
          (Missing_Information errs, store0)"
    and 4: "\<exists>errs. handleSubmit_task (Some 10) (task1\<lparr>itemsList := ''  ''\<rparr>) store0 =
          (Missing_Information errs, store0)"
    by auto
  from handleSubmit_validates [of form1 20 store_chat task1] f p20
  have 5: "handleSubmit (Some 20) form1 store_chat = (Create_failed Foreign_key_violation, store_chat)"
    by simp
  from 1 2 3 4 5 show ?thesis by (intro conjI)
qed

section \<open>Available bookings\<close>

text \<open>
  C9. Every booking that \<^verbatim>\<open>riderService.getAvailableBookings\<close> returns is a row of the
  store with status pending and no rider, and the list is in descending order of
  \<^verbatim>\<open>created_at\<close>.
\<close>

theorem getAvailableBookings_pending_unassigned:
  assumes "getAvailableBookings user st = Inr rows"
  shows "(\<forall>b \<in> set (map fst rows).
            status b = pending \<and> rider_id b = None \<and> b \<in> set (bookings st)) \<and>
         sorted_wrt (\<lambda>x y. y \<le> x) (map created_at (map fst rows))"
proof -
  let ?sel = "order_created_at_desc
               (filter (\<lambda>b. status b = pending \<and> rider_id b = None \<and> select_using user st b)
                  (bookings st))"
  have "map fst rows = ?sel"
    using assms
    by (auto simp: getAvailableBookings_def Let_def transform_available_def comp_def
        split: if_splits)
  then show ?thesis
    by (auto simp: order_created_at_desc_def sorted_desc_rev_sort)
qed

theorem getAvailableBookings_pending_unassigned_witness:
  "\<exists>rows. getAvailableBookings (Some 20) store_listing = Inr rows \<and>
          map (\<lambda>r. b_id (fst r)) rows = [3, 1] \<and>
          list_all (\<lambda>b. status b = pending \<and> rider_id b = None) (map fst rows) \<and>
          sorted_wrt (\<lambda>x y. y \<le> x) (map created_at (map fst rows))"
proof -
  have "\<exists>rows. getAvailableBookings (Some 20) store_listing = Inr rows \<and>
          map (\<lambda>r. b_id (fst r)) rows = [3, 1]"
    by (simp add: getAvailableBookings_def isRider_def order_created_at_desc_def
        transform_available_def Let_def policy_defs store_listing_def example_defs)
  then obtain rows where r: "getAvailableBookings (Some 20) store_listing = Inr rows"
    and ids: "map (\<lambda>r. b_id (fst r)) rows = [3, 1]" by (elim exE conjE) (rule that)
  from getAvailableBookings_pending_unassigned [OF r] r ids show ?thesis
    by (auto simp: list_all_iff)
qed

section \<open>Sending a chat message\<close>

text \<open>
  C10. A text is blank (its trimmed form is empty) exactly when all its characters are
  white space. For a blank text \<^verbatim>\<open>sendMessage\<close> and \<^verbatim>\<open>handleSendMessage\<close> change
  nothing and report no error. In every case the messages relation is afterwards what
  it was, or has one more row whose content is the trimmed text; for a text that is not
  blank, sent by a party of the booking, it has that row. The trimmed text is the input
  without a prefix and a suffix of white space, and does not begin or end with white
  space.
\<close>

theorem sendMessage_blank_or_trimmed:
  "(trim newMessage = []) = list_all is_white_space newMessage \<and>
   (trim newMessage = [] \<longrightarrow>
      sendMessage newMessage bookingId user st view = ((False, newMessage, view), st) \<and>
      handleSendMessage newMessage bid user st = ((False, newMessage), st)) \<and>
   (messages (snd (sendMessage newMessage bookingId user st view)) = messages st \<or>
    (\<exists>m. messages (snd (sendMessage newMessage bookingId user st view)) = messages st @ [m] \<and>
         m_content m = trim newMessage)) \<and>
   (messages (snd (handleSendMessage newMessage bid user st)) = messages st \<or>
    (\<exists>m. messages (snd (handleSendMessage newMessage bid user st)) = messages st @ [m] \<and>
         m_content m = trim newMessage)) \<and>
   (trim newMessage \<noteq> [] \<and> can_send_message (Some u) bid st \<longrightarrow>
      (\<exists>m. messages (snd (sendMessage newMessage (Some bid) (Some u) st view)) = messages st @ [m] \<and>
           m_content m = trim newMessage \<and> m_booking_id m = bid \<and> m_sender_id m = u) \<and>
      (\<exists>m. messages (snd (handleSendMessage newMessage bid (Some u) st)) = messages st @ [m] \<and>
           m_content m = trim newMessage \<and> m_booking_id m = bid \<and> m_sender_id m = u)) \<and>
   (\<exists>pre suf. newMessage = pre @ trim newMessage @ suf \<and>
        list_all is_white_space pre \<and> list_all is_white_space suf) \<and>
   (trim newMessage \<noteq> [] \<longrightarrow>
      \<not> is_white_space (hd (trim newMessage)) \<and> \<not> is_white_space (last (trim newMessage)))"
proof -
  have a: "(trim newMessage = []) = list_all is_white_space newMessage" by (rule trim_blank)
  have b: "trim newMessage = [] \<longrightarrow>
      sendMessage newMessage bookingId user st view = ((False, newMessage, view), st) \<and>
      handleSendMessage newMessage bid user st = ((False, newMessage), st)"
    by (simp add: sendMessage_def handleSendMessage_def)
  have c: "messages (snd (sendMessage newMessage bookingId user st view)) = messages st \<or>
    (\<exists>m. messages (snd (sendMessage newMessage bookingId user st view)) = messages st @ [m] \<and>
         m_content m = trim newMessage)"
    by (auto simp: sendMessage_def Let_def split: option.splits)
  have d: "messages (snd (handleSendMessage newMessage bid user st)) = messages st \<or>
    (\<exists>m. messages (snd (handleSendMessage newMessage bid user st)) = messages st @ [m] \<and>
         m_content m = trim newMessage)"
    by (auto simp: handleSendMessage_def split: option.splits)
  have e: "trim newMessage \<noteq> [] \<and> can_send_message (Some u) bid st \<longrightarrow>
      (\<exists>m. messages (snd (sendMessage newMessage (Some bid) (Some u) st view)) = messages st @ [m] \<and>
           m_content m = trim newMessage \<and> m_booking_id m = bid \<and> m_sender_id m = u) \<and>
      (\<exists>m. messages (snd (handleSendMessage newMessage bid (Some u) st)) = messages st @ [m] \<and>
           m_content m = trim newMessage \<and> m_booking_id m = bid \<and> m_sender_id m = u)"
    by (auto simp: sendMessage_def handleSendMessage_def Let_def split: option.splits)
  from a b c d e trim_decompose [of newMessage] trim_ends [of newMessage] show ?thesis by blast
qed

theorem sendMessage_blank_or_trimmed_witness:
  "trim ''   '' = [] \<and>
   sendMessage ''   '' (Some 1) (Some 10) store_chat [] = ((False, ''   '', []), store_chat) \<and>
   handleSendMessage ''   '' 1 (Some 10) store_chat = ((False, ''   ''), store_chat) \<and>
   trim ''  see you  '' = ''see you'' \<and>
   can_send_message (Some 10) 1 store_chat \<and>
   (\<exists>m. messages (snd (sendMessage ''  see you  '' (Some 1) (Some 10) store_chat [])) =
           messages store_chat @ [m] \<and> m_content m = ''see you'') \<and>
   (\<exists>m. messages (snd (handleSendMessage ''  see you  '' 1 (Some 10) store_chat)) =
           messages store_chat @ [m] \<and> m_content m = ''see you'')"
proof -
  have b: "trim ''   '' = []" by (simp add: trim_def is_white_space_def)
  have t: "trim ''  see you  '' = ''see you''" by (simp add: trim_def is_white_space_def)
  have c: "can_send_message (Some 10) 1 store_chat"
    by (simp add: can_send_message_def is_owner_def chat_defs)
  note blank = sendMessage_blank_or_trimmed
    [of "''   ''" "Some 1" "Some 10" store_chat "[]" 1 10,
      THEN conjunct2, THEN conjunct1, THEN mp, OF b]
  from t c have "trim ''  see you  '' \<noteq> [] \<and> can_send_message (Some 10) 1 store_chat" by simp
  note sent = sendMessage_blank_or_trimmed
    [of "''  see you  ''" "Some 1" "Some 10" store_chat "[]" 1 10,
      THEN conjunct2, THEN conjunct2, THEN conjunct2, THEN conjunct2, THEN conjunct1,
      THEN mp, OF this, unfolded t]
  from sent have
    "\<exists>m. messages (snd (sendMessage ''  see you  '' (Some 1) (Some 10) store_chat [])) =
           messages store_chat @ [m] \<and> m_content m = ''see you''"
    "\<exists>m. messages (snd (handleSendMessage ''  see you  '' 1 (Some 10) store_chat)) =
           messages store_chat @ [m] \<and> m_content m = ''see you''"
    by blast+
  with blank b t c show ?thesis by (intro conjI) (erule conjunct1 conjunct2 | assumption)+
qed

end
